theory Spec2Isabelle
  imports Complex_Main
begin

section \<open>The tax estimate of the calculate-tax route\<close>

text \<open>
  The handler of \<open>GET /calculate-tax\<close> reads the user's income object and the number
  of the user's dependents, and answers with a \<open>calculation\<close> object.  JavaScript numbers
  are modelled as exact rationals: every constant of the handler (\<open>0.10\<close>, \<open>1027.50\<close>, ...)
  is the decimal fraction that the source text denotes, and \<open>+\<close>, \<open>-\<close>, \<open>*\<close> are exact.
  The one operation of the handler that can leave the finite numbers is the division of
  the effective rate; it is modelled by \<open>js_div\<close>, whose result \<open>None\<close> stands for the
  non-finite results \<open>NaN\<close> and \<open>Infinity\<close> of a division by zero.

  The income object is modelled as the list of its properties in insertion order, each
  value a number or absent (\<open>null\<close>/\<open>undefined\<close>, written \<open>None\<close>); the object itself may
  be \<open>null\<close> (\<open>user.income || {}\<close>).
\<close>

type_synonym income = "(string \<times> rat option) list"

record calculation =
  totalIncome :: rat
  dependentsCount :: nat
  dependentDeduction :: rat
  taxOwed :: rat
  effectiveRate :: "rat option"

definition js_div :: "rat \<Rightarrow> rat \<Rightarrow> rat option" where
  \<comment> \<open>\<open>a / b\<close> on finite numbers: a finite quotient, or no finite number when \<open>b\<close> is zero\<close>
  "js_div a b = (if b = 0 then None else Some (a / b))"

definition Math_round :: "rat \<Rightarrow> rat" where
  \<comment> \<open>\<open>Math.round\<close>: the nearest integer, a tie going up\<close>
  "Math_round x = of_int \<lfloor>x + 1 / 2\<rfloor>"

definition or_zero :: "rat option \<Rightarrow> rat" where
  \<comment> \<open>\<open>val || 0\<close>: an absent value and the falsy number \<open>0\<close> both give \<open>0\<close>\<close>
  "or_zero val = (case val of None \<Rightarrow> 0 | Some v \<Rightarrow> if v = 0 then 0 else v)"

definition sumIncome :: "income \<Rightarrow> rat" where
  \<comment> \<open>\<open>Object.values(income).reduce((sum, val) => sum + (val || 0), 0)\<close>\<close>
  "sumIncome income = foldl (\<lambda>sum val. sum + or_zero val) 0 (map snd income)"

definition bracketTax :: "rat \<Rightarrow> rat" where
  \<comment> \<open>\<open>taxOwed\<close> after the bracket cascade, before the dependent deduction\<close>
  "bracketTax t =
     (if t > 0 then
        (if t \<le> 10275 then t * 0.10
         else if t \<le> 41775 then 1027.50 + (t - 10275) * 0.12
         else if t \<le> 89450 then 4807.50 + (t - 41775) * 0.22
         else 15213.50 + (t - 89450) * 0.24)
      else 0)"

definition calculateTax :: "income option \<Rightarrow> nat \<Rightarrow> calculation" where
  "calculateTax userIncome count =
     (let income = (case userIncome of None \<Rightarrow> [] | Some i \<Rightarrow> i);
          total = sumIncome income;
          deduction = of_nat count * 2000;
          owed = max 0 (bracketTax total - deduction)
      in \<lparr> totalIncome = total,
           dependentsCount = count,
           dependentDeduction = deduction,
           taxOwed = Math_round (owed * 100) / 100,
           effectiveRate =
             (if total > 0
              then map_option (\<lambda>q. Math_round (q * 10000) / 100) (js_div owed total)
              else Some 0) \<rparr>)"

subsection \<open>The bracket table of the specification\<close>

text \<open>
  The specification describes the cascade as a table of brackets, each with an inclusive
  upper bound (none for the last), a base amount and a marginal rate; the lower bound of
  a bracket is the upper bound of the one before it, \<open>0\<close> for the first.  The tax is the
  base of the first bracket whose upper bound is not below the income, plus the rate on
  the income above the bracket's lower bound.
\<close>

type_synonym bracket = "rat option \<times> rat \<times> rat"

definition referenceTable :: "bracket list" where
  "referenceTable =
     [(Some 10275, 0, 0.10),
      (Some 41775, 1027.50, 0.12),
      (Some 89450, 4807.50, 0.22),
      (None, 15213.50, 0.24)]"

fun tableTax :: "rat \<Rightarrow> bracket list \<Rightarrow> rat \<Rightarrow> rat" where
  "tableTax lower [] t = 0"
| "tableTax lower ((None, base, rate) # bs) t = base + (t - lower) * rate"
| "tableTax lower ((Some upper, base, rate) # bs) t =
     (if t \<le> upper then base + (t - lower) * rate else tableTax upper bs t)"

section \<open>The student loan interest of the generated 1098 form\<close>

text \<open>
  \<open>calculateStudentLoanInterest(w2Data)\<close> reads the property \<open>box1_wages\<close> of the stored
  W-2 object, which the caller has made an object (\<open>user.income?.w2Data || {}\<close>).  The
  object is modelled by the list of its properties, a property value by \<open>jsval\<close>.
  \<open>parseFloat\<close> belongs to the language; the function takes it as its first argument, so
  that nothing is assumed about the parsing or rounding of decimal literals.  Its
  result is a JavaScript number: not-a-number, an infinity or a finite value.
\<close>

datatype jsval = Undefined | Null | Boolean bool | Number rat | String string | Object

datatype jsnum = NaN | NegInfinity | Finite rat | PosInfinity

type_synonym object = "(string \<times> jsval) list"

fun truthy :: "jsval \<Rightarrow> bool" where
  "truthy Undefined = False"
| "truthy Null = False"
| "truthy (Boolean b) = b"
| "truthy (Number n) = (n \<noteq> 0)"
| "truthy (String s) = (s \<noteq> [])"
| "truthy Object = True"

definition property :: "object \<Rightarrow> string \<Rightarrow> jsval" where
  \<comment> \<open>\<open>obj.name\<close>: \<open>undefined\<close> for a property the object does not have\<close>
  "property obj name = (case map_of obj name of None \<Rightarrow> Undefined | Some v \<Rightarrow> v)"

definition js_or :: "jsval \<Rightarrow> jsval \<Rightarrow> jsval" where
  \<comment> \<open>\<open>a || b\<close>\<close>
  "js_or a b = (if truthy a then a else b)"

fun js_gt :: "jsnum \<Rightarrow> rat \<Rightarrow> bool" where
  \<comment> \<open>\<open>x > c\<close> for a finite constant \<open>c\<close>; every comparison with \<open>NaN\<close> is false\<close>
  "js_gt NaN c = False"
| "js_gt NegInfinity c = False"
| "js_gt (Finite x) c = (x > c)"
| "js_gt PosInfinity c = True"

definition parsedWages :: "(jsval \<Rightarrow> jsnum) \<Rightarrow> object \<Rightarrow> jsnum" where
  \<comment> \<open>\<open>const wages = parseFloat(w2Data.box1_wages || '0')\<close>\<close>
  "parsedWages parseFloat w2Data =
     parseFloat (js_or (property w2Data ''box1_wages'') (String ''0''))"

definition calculateStudentLoanInterest :: "(jsval \<Rightarrow> jsnum) \<Rightarrow> object \<Rightarrow> string" where
  "calculateStudentLoanInterest parseFloat w2Data =
     (let wages = parsedWages parseFloat w2Data
      in if js_gt wages 30000 then ''2500.00''
         else if js_gt wages 20000 then ''1500.00''
         else if js_gt wages 10000 then ''800.00''
         else ''0.00'')"

text \<open>
  The order of JavaScript numbers, in which \<open>NaN\<close> is comparable with nothing, and the
  amount that each of the four results of \<open>calculateStudentLoanInterest\<close> denotes.
\<close>

fun js_le :: "jsnum \<Rightarrow> jsnum \<Rightarrow> bool" where
  "js_le NaN y = False"
| "js_le x NaN = False"
| "js_le NegInfinity y = True"
| "js_le (Finite x) (Finite y) = (x \<le> y)"
| "js_le (Finite x) PosInfinity = True"
| "js_le PosInfinity PosInfinity = True"
| "js_le x y = False"

definition amountOf :: "string \<Rightarrow> rat" where
  "amountOf s =
     (if s = ''2500.00'' then 2500 else if s = ''1500.00'' then 1500
      else if s = ''800.00'' then 800 else 0)"

definition parseFloatSample :: "jsval \<Rightarrow> jsnum" where
  \<comment> \<open>the values of \<open>parseFloat\<close> at the arguments of the examples below\<close>
  "parseFloatSample v =
     (if v = String ''0'' then Finite 0
      else if v = String ''45000.00'' then Finite 45000
      else if v = String ''25000.00'' then Finite 25000
      else NaN)"

definition w2High :: object where
  "w2High = [(''box1_wages'', String ''45000.00'')]"

definition w2Mid :: object where
  "w2Mid = [(''box1_wages'', String ''25000.00'')]"

definition w2Bad :: object where
  "w2Bad = [(''box1_wages'', String ''n/a'')]"

section \<open>The field extractor of the extract-w2 route\<close>

text \<open>
  The text of the uploaded document and every extracted value are JavaScript strings,
  modelled by \<open>string\<close>: a character stands for a code unit below 256.  A value that
  may be \<open>null\<close> or \<open>undefined\<close> is an \<open>option\<close>.

  \<open>text.match(pattern)\<close> is \<open>null\<close> or the match array, whose element 0 is the matched
  text and whose element \<open>i\<close> is the text of capturing group \<open>i\<close>, \<open>undefined\<close> for a group
  that took no part in the match.  A pattern is modelled by what \<open>match\<close> returns for it
  on each text; the two extractors are defined over arbitrary patterns of this kind.
\<close>

type_synonym match = "string option list"

type_synonym regexp = "string \<Rightarrow> match option"

definition group1 :: "match \<Rightarrow> string option" where
  \<comment> \<open>\<open>match[1]\<close>\<close>
  "group1 m = (if 1 < length m then m ! 1 else None)"

definition is_space :: "char \<Rightarrow> bool" where
  \<comment> \<open>white space and line terminators: what \<open>trim\<close> removes and \<open>\s\<close> matches\<close>
  "is_space c =
     (c \<in> set [CHR 0x09, CHR 0x0A, CHR 0x0B, CHR 0x0C, CHR 0x0D, CHR 0x20, CHR 0xA0])"

definition trim :: "string \<Rightarrow> string" where
  "trim s = rev (dropWhile is_space (rev (dropWhile is_space s)))"

fun extractField :: "string \<Rightarrow> regexp list \<Rightarrow> string option" where
  "extractField text [] = None"
| "extractField text (pattern # patterns) =
     (case pattern text of
        None \<Rightarrow> extractField text patterns
      | Some m \<Rightarrow>
          (case group1 m of
             None \<Rightarrow> extractField text patterns
           | Some g \<Rightarrow> if g \<noteq> [] then Some (trim g) else extractField text patterns))"

fun extractMoneyField :: "string \<Rightarrow> regexp list \<Rightarrow> string option" where
  "extractMoneyField text [] = None"
| "extractMoneyField text (pattern # patterns) =
     (case pattern text of
        None \<Rightarrow> extractMoneyField text patterns
      | Some m \<Rightarrow>
          (case group1 m of
             None \<Rightarrow> extractMoneyField text patterns
           | Some g \<Rightarrow>
               if g \<noteq> [] then
                 (let amount = filter (\<lambda>c. c \<noteq> CHR '','') g
                  in Some (if CHR ''.'' \<in> set amount then amount else amount @ ''.00''))
               else extractMoneyField text patterns))"

text \<open>
  The capture that an extractor returns from: group 1 of the first pattern, in order,
  that matches the text with a group 1 that is a non-empty string.
\<close>

fun firstCapture :: "string \<Rightarrow> regexp list \<Rightarrow> string option" where
  "firstCapture text [] = None"
| "firstCapture text (pattern # patterns) =
     (case pattern text of
        None \<Rightarrow> firstCapture text patterns
      | Some m \<Rightarrow>
          (case group1 m of
             None \<Rightarrow> firstCapture text patterns
           | Some g \<Rightarrow> if g \<noteq> [] then Some g else firstCapture text patterns))"

definition is_digit :: "char \<Rightarrow> bool" where
  "is_digit c = (c \<in> set ''0123456789'')"

definition twoDecimals :: "string \<Rightarrow> bool" where
  \<comment> \<open>exactly one decimal point, and exactly two digits after it\<close>
  "twoDecimals s =
     (count_list s CHR ''.'' = 1 \<and>
      (let fraction = drop 1 (dropWhile (\<lambda>c. c \<noteq> CHR ''.'') s)
       in length fraction = 2 \<and> list_all is_digit fraction))"

subsection \<open>Regular expressions\<close>

text \<open>
  The patterns of the route are regular expression literals.  They are modelled by
  their syntax trees and a backtracking matcher that returns the final states of all
  ways to match an expression at a position, in the order in which backtracking tries
  them: the left alternative before the right one, more repetitions before fewer for a
  greedy quantifier and fewer before more for a lazy one.  A repetition that consumes
  nothing is not continued.  The state of a match is the text before the position
  (reversed), the text from the position on, and the text of the capturing group; each
  pattern of the route has one.  \<open>exec\<close> tries the start positions from the left and gives
  the match array of the first way to match at the first position that has one.
\<close>

datatype re =
    Cls "char \<Rightarrow> bool"
  | Eps
  | Seq re re
  | Alt re re
  | Star re
  | LazyStar re
  | Grp re
  | Bol_m
  | Eol

record mstate =
  seen :: string
  rest :: string
  capture :: "string option"

function (sequential) rmatch :: "re \<Rightarrow> mstate \<Rightarrow> mstate list" where
  "rmatch (Cls p) s =
     (case rest s of
        [] \<Rightarrow> []
      | c # cs \<Rightarrow> if p c then [s\<lparr>seen := c # seen s, rest := cs\<rparr>] else [])"
| "rmatch Eps s = [s]"
| "rmatch (Seq r1 r2) s = concat (map (rmatch r2) (rmatch r1 s))"
| "rmatch (Alt r1 r2) s = rmatch r1 s @ rmatch r2 s"
| "rmatch (Star r) s =
     concat (map (\<lambda>s'. if length (rest s') < length (rest s) then rmatch (Star r) s' else [])
               (rmatch r s)) @ [s]"
| "rmatch (LazyStar r) s =
     s # concat (map (\<lambda>s'. if length (rest s') < length (rest s)
                            then rmatch (LazyStar r) s' else [])
               (rmatch r s))"
| "rmatch (Grp r) s =
     map (\<lambda>s'. s'\<lparr>capture := Some (take (length (rest s) - length (rest s')) (rest s))\<rparr>)
       (rmatch r s)"
| "rmatch Bol_m s =
     (case seen s of
        [] \<Rightarrow> [s]
      | c # cs \<Rightarrow> if c = CHR 0x0A \<or> c = CHR 0x0D then [s] else [])"
| "rmatch Eol s = (if rest s = [] then [s] else [])"
  by pat_completeness auto
termination
  by (relation "measures [\<lambda>(r, s). size r, \<lambda>(r, s). length (rest s)]") auto

fun search :: "re \<Rightarrow> string \<Rightarrow> string \<Rightarrow> match option" where
  "search r left text =
     (case rmatch r \<lparr>seen = left, rest = text, capture = None\<rparr> of
        s # _ \<Rightarrow> Some [Some (take (length text - length (rest s)) text), capture s]
      | [] \<Rightarrow> (case text of [] \<Rightarrow> None | c # cs \<Rightarrow> search r (c # left) cs))"

definition exec :: "re \<Rightarrow> regexp" where
  "exec r text = search r [] text"

text \<open>
  The pieces of the route's patterns.  All patterns carry the flag \<open>i\<close>: a letter of a
  pattern matches both of its cases.
\<close>

definition upper :: "char \<Rightarrow> char" where
  "upper c =
     (case map_of (zip ''abcdefghijklmnopqrstuvwxyz'' ''ABCDEFGHIJKLMNOPQRSTUVWXYZ'') c of
        None \<Rightarrow> c
      | Some u \<Rightarrow> u)"

definition is_letter :: "char \<Rightarrow> bool" where
  "is_letter c = (upper c \<in> set ''ABCDEFGHIJKLMNOPQRSTUVWXYZ'')"

definition chr :: "char \<Rightarrow> re" where
  "chr c = Cls (\<lambda>x. upper x = upper c)"

fun seqs :: "re list \<Rightarrow> re" where
  "seqs [] = Eps"
| "seqs [r] = r"
| "seqs (r # rs) = Seq r (seqs rs)"

definition lit :: "string \<Rightarrow> re" where
  "lit s = seqs (map chr s)"

definition Opt :: "re \<Rightarrow> re" where
  \<comment> \<open>\<open>r?\<close>\<close>
  "Opt r = Alt r Eps"

definition Plus :: "re \<Rightarrow> re" where
  \<comment> \<open>\<open>r+\<close>\<close>
  "Plus r = Seq r (Star r)"

definition LazyPlus :: "re \<Rightarrow> re" where
  \<comment> \<open>\<open>r+?\<close>\<close>
  "LazyPlus r = Seq r (LazyStar r)"

definition spaces :: re where
  \<comment> \<open>\<open>\s*\<close>\<close>
  "spaces = Star (Cls is_space)"

definition labelEnd :: re where
  \<comment> \<open>\<open>[:\s]*\<close>\<close>
  "labelEnd = Star (Cls (\<lambda>c. c = CHR '':'' \<or> is_space c))"

definition nameGroup :: re where
  \<comment> \<open>\<open>([A-Za-z\s,.-]+?)\<close>\<close>
  "nameGroup =
     Grp (LazyPlus (Cls (\<lambda>c. is_letter c \<or> is_space c \<or> c \<in> set '',.-'')))"

definition moneyGroup :: re where
  \<comment> \<open>\<open>\$?([\d,]+\.?\d*)\<close>\<close>
  "moneyGroup =
     Seq (Opt (chr CHR ''$''))
       (Grp (seqs [Plus (Cls (\<lambda>c. is_digit c \<or> c = CHR '','')), Opt (chr CHR ''.''),
                   Star (Cls is_digit)]))"

definition newline :: re where
  \<comment> \<open>\<open>\n\<close>\<close>
  "newline = chr (CHR 0x0A)"

definition anyChar :: re where
  \<comment> \<open>\<open>.\<close>: any character but a line terminator\<close>
  "anyChar = Cls (\<lambda>c. c \<noteq> CHR 0x0A \<and> c \<noteq> CHR 0x0D)"

fun words :: "string list \<Rightarrow> re list" where
  \<comment> \<open>the words of a label, \<open>\s*\<close> between them\<close>
  "words [] = []"
| "words [w] = [lit w]"
| "words (w # ws) = lit w # spaces # words ws"

definition moneyLabel :: "re list \<Rightarrow> regexp" where
  \<comment> \<open>\<open>/label[:\s]*\$?([\d,]+\.?\d*)/i\<close>\<close>
  "moneyLabel label = exec (seqs (label @ [labelEnd, moneyGroup]))"

definition nameLabel :: "string \<Rightarrow> re \<Rightarrow> regexp" where
  \<comment> \<open>\<open>/label[:\s]*([A-Za-z\s,.-]+?)(?:\n|stop)/i\<close>\<close>
  "nameLabel label stop = exec (seqs [lit label, labelEnd, nameGroup, Alt newline stop])"

definition employeeNamePatterns :: "regexp list" where
  "employeeNamePatterns =
     [nameLabel ''Employee's name'' Eol,
      nameLabel ''Employee'' (lit ''Employer''),
      exec (seqs [Bol_m, nameGroup,
                  Alt (seqs [newline, LazyStar anyChar, lit ''SSN'']) (lit ''Social Security'')])]"

definition employerNamePatterns :: "regexp list" where
  "employerNamePatterns =
     [nameLabel ''Employer's name'' Eol,
      nameLabel ''Employer'' (lit ''EIN''),
      nameLabel ''Company'' Eol]"

definition box1Patterns :: "regexp list" where
  "box1Patterns =
     [moneyLabel ([lit ''1'', spaces, lit ''Wages'', Opt (chr CHR '',''), spaces,
                   lit ''tips'', Opt (chr CHR '',''), spaces] @ words [''other'', ''compensation'']),
      moneyLabel (words [''Box'', ''1'']),
      moneyLabel (words [''Wages''])]"

definition box2Patterns :: "regexp list" where
  "box2Patterns =
     [moneyLabel (words [''2'', ''Federal'', ''income'', ''tax'', ''withheld'']),
      moneyLabel (words [''Box'', ''2'']),
      moneyLabel (words [''Federal'', ''tax'', ''withheld''])]"

definition box3Patterns :: "regexp list" where
  "box3Patterns =
     [moneyLabel (words [''3'', ''Social'', ''security'', ''wages'']),
      moneyLabel (words [''Box'', ''3'']),
      moneyLabel (words [''Social'', ''security'', ''wages''])]"

definition box4Patterns :: "regexp list" where
  "box4Patterns =
     [moneyLabel (words [''4'', ''Social'', ''security'', ''tax'', ''withheld'']),
      moneyLabel (words [''Box'', ''4'']),
      moneyLabel (words [''Social'', ''security'', ''tax''])]"

definition box5Patterns :: "regexp list" where
  "box5Patterns =
     [moneyLabel (words [''5'', ''Medicare'', ''wages'', ''and'', ''tips'']),
      moneyLabel (words [''Box'', ''5'']),
      moneyLabel (words [''Medicare'', ''wages''])]"

definition box6Patterns :: "regexp list" where
  "box6Patterns =
     [moneyLabel (words [''6'', ''Medicare'', ''tax'', ''withheld'']),
      moneyLabel (words [''Box'', ''6'']),
      moneyLabel (words [''Medicare'', ''tax''])]"

subsection \<open>The extract-w2 route\<close>

text \<open>
  The handler answers 400 when there is no user or the user has no uploaded file name,
  404 when the file is missing, and 500 when reading or parsing the file or saving the
  record fails; otherwise it answers with the extracted record.  What the handler gets
  from its environment is an argument of the model: the user, whether the file exists,
  the text of the parsed document (\<open>None\<close> when reading or parsing throws), the time
  stamp, and whether the update of the user succeeds.
\<close>

record user =
  w2FileName :: "string option"

record extractedData =
  employeeName :: "string option"
  employerName :: "string option"
  box1_wages :: "string option"
  box2_federalTax :: "string option"
  box3_socialSecurityWages :: "string option"
  box4_socialSecurityTax :: "string option"
  box5_medicareWages :: "string option"
  box6_medicareTax :: "string option"
  extractionDate :: "string option"
  fileName :: "string option"

datatype response = Status400 | Status404 | Status500 | Status200 extractedData

definition orElse :: "string option \<Rightarrow> string \<Rightarrow> string option" where
  \<comment> \<open>\<open>value || 'literal'\<close>: \<open>null\<close> and the empty string are falsy\<close>
  "orElse v d = (case v of None \<Rightarrow> Some d | Some s \<Rightarrow> if s = [] then Some d else Some s)"

definition extractW2 ::
  "user option \<Rightarrow> bool \<Rightarrow> string option \<Rightarrow> string \<Rightarrow> bool \<Rightarrow> response" where
  "extractW2 found fileExists pdfText now saved =
     (case found of
        None \<Rightarrow> Status400
      | Some user \<Rightarrow>
          if w2FileName user = None \<or> w2FileName user = Some [] then Status400
          else if \<not> fileExists then Status404
          else
            (case pdfText of
               None \<Rightarrow> Status500
             | Some text \<Rightarrow>
                 (let name1 = extractField text employeeNamePatterns;
                      name2 = extractField text employerNamePatterns;
                      box1 = extractMoneyField text box1Patterns;
                      box2 = extractMoneyField text box2Patterns;
                      box3 = extractMoneyField text box3Patterns;
                      box4 = extractMoneyField text box4Patterns;
                      box5 = extractMoneyField text box5Patterns;
                      box6 = extractMoneyField text box6Patterns;
                      data = \<lparr> employeeName = orElse name1 ''Not found'',
                               employerName = orElse name2 ''Not found'',
                               box1_wages = orElse box1 ''0.00'',
                               box2_federalTax = orElse box2 ''0.00'',
                               box3_socialSecurityWages = orElse box3 ''0.00'',
                               box4_socialSecurityTax = orElse box4 ''0.00'',
                               box5_medicareWages = orElse box5 ''0.00'',
                               box6_medicareTax = orElse box6 ''0.00'',
                               extractionDate = Some now,
                               fileName = w2FileName user \<rparr>
                  in if saved then Status200 data else Status500)))"

text \<open>Texts and arguments of the examples.\<close>

definition textSplitName :: string where
  "textSplitName = ''Employee's name: \<newline>Employee: John Smith\<newline>Employer: ACME''"

definition textOneDecimal :: string where
  "textOneDecimal = ''Wages: 1,234.5''"

definition textWholeAmount :: string where
  "textWholeAmount = ''Box 1: $52,345''"

definition textNoLabels :: string where
  "textNoLabels = ''lorem ipsum 42''"

definition textZeroWages :: string where
  "textZeroWages = ''Wages: 0.00''"

definition uploader :: user where
  "uploader = \<lparr> w2FileName = Some ''w2-1.pdf'' \<rparr>"

definition timeStamp :: string where
  "timeStamp = ''2024-01-01T00:00:00.000Z''"

definition notFoundData :: extractedData where
  "notFoundData =
     \<lparr> employeeName = Some ''Not found'', employerName = Some ''Not found'',
       box1_wages = Some ''0.00'', box2_federalTax = Some ''0.00'',
       box3_socialSecurityWages = Some ''0.00'', box4_socialSecurityTax = Some ''0.00'',
       box5_medicareWages = Some ''0.00'', box6_medicareTax = Some ''0.00'',
       extractionDate = Some timeStamp, fileName = Some ''w2-1.pdf'' \<rparr>"

section \<open>Properties of the tax estimate\<close>

lemma Math_round_nonneg: "0 \<le> x \<Longrightarrow> 0 \<le> Math_round x"
  by (simp add: Math_round_def)

lemma Math_round_zero: "Math_round 0 = 0"
  by (simp add: Math_round_def floor_eq_iff)

lemma foldl_or_zero_all_absent:
  "\<forall>v \<in> set vs. v = None \<or> v = Some 0 \<Longrightarrow>
     foldl (\<lambda>sum val. sum + or_zero val) a vs = a"
  by (induction vs arbitrary: a) (auto simp: or_zero_def)

lemma sumIncome_all_absent:
  assumes "\<forall>(k, v) \<in> set income. v = None \<or> v = Some 0"
  shows "sumIncome income = 0"
proof -
  from assms have "\<forall>v \<in> set (map snd income). v = None \<or> v = Some 0"
    by auto
  then show ?thesis
    unfolding sumIncome_def by (rule foldl_or_zero_all_absent)
qed

text \<open>
  Claim C1.  For every total income \<open>t > 0\<close> the tax before the dependent deduction is the
  piecewise formula over the reference table: \<open>t * 0.10\<close> up to 10275,
  \<open>1027.50 + (t - 10275) * 0.12\<close> up to 41775, \<open>4807.50 + (t - 41775) * 0.22\<close> up to 89450
  and \<open>15213.50 + (t - 89450) * 0.24\<close> above; at \<open>t = 10275\<close> it is \<open>1027.50\<close>, the boundary
  belonging to the lower bracket.
\<close>

theorem bracketTax_piecewise:
  assumes "0 < t"
  shows "bracketTax t = tableTax 0 referenceTable t
    \<and> (t \<le> 10275 \<longrightarrow> bracketTax t = t * 0.10)
    \<and> (10275 < t \<and> t \<le> 41775 \<longrightarrow> bracketTax t = 1027.50 + (t - 10275) * 0.12)
    \<and> (41775 < t \<and> t \<le> 89450 \<longrightarrow> bracketTax t = 4807.50 + (t - 41775) * 0.22)
    \<and> (89450 < t \<longrightarrow> bracketTax t = 15213.50 + (t - 89450) * 0.24)
    \<and> (t = 10275 \<longrightarrow> bracketTax t = 1027.50)"
  using assms by (simp add: bracketTax_def referenceTable_def)

theorem bracketTax_piecewise_witness:
  "(0::rat) < 10275 \<and> bracketTax 10275 = tableTax 0 referenceTable 10275
     \<and> bracketTax 10275 = 10275 * 0.10 \<and> bracketTax 10275 = 1027.50"
  using bracketTax_piecewise [of 10275] by simp

text \<open>
  Claim C4.  For a total income of 50000 and two dependents the handler answers with
  tax owed 2617.00 (the bracket tax 6617.00 less the deduction of 4000) and the
  effective rate 5.23.
\<close>

theorem calculateTax_50000_two_dependents:
  assumes "sumIncome income = 50000"
  shows "bracketTax (totalIncome (calculateTax (Some income) 2)) = 6617.00
    \<and> dependentDeduction (calculateTax (Some income) 2) = 4000
    \<and> taxOwed (calculateTax (Some income) 2) = 2617.00
    \<and> effectiveRate (calculateTax (Some income) 2) = Some 5.23"
proof -
  have r1: "Math_round 261700 = 261700"
    by (simp add: Math_round_def floor_eq_iff)
  have r2: "Math_round (5234 / 10) = 523"
    by (simp add: Math_round_def floor_eq_iff)
  show ?thesis
    using assms r1 r2 by (simp add: calculateTax_def bracketTax_def js_div_def Let_def)
qed

theorem calculateTax_50000_two_dependents_witness:
  "sumIncome [(''wages'', Some 50000)] = 50000
     \<and> taxOwed (calculateTax (Some [(''wages'', Some 50000)]) 2) = 2617.00
     \<and> effectiveRate (calculateTax (Some [(''wages'', Some 50000)]) 2) = Some 5.23"
proof -
  have s: "sumIncome [(''wages'', Some 50000)] = 50000"
    by (simp add: sumIncome_def or_zero_def)
  from calculateTax_50000_two_dependents [OF s] s show ?thesis
    by simp
qed

text \<open>
  Claim C5.  For every income object and every number of dependents the tax owed that
  the handler returns, after the deduction of 2000 per dependent, is not negative; it
  is zero whenever the deduction is at least the bracket tax.
\<close>

theorem taxOwed_nonneg:
  "0 \<le> taxOwed (calculateTax userIncome count)
    \<and> (bracketTax (totalIncome (calculateTax userIncome count))
          \<le> dependentDeduction (calculateTax userIncome count)
        \<longrightarrow> taxOwed (calculateTax userIncome count) = 0)"
  by (simp add: calculateTax_def Let_def Math_round_nonneg Math_round_zero)

theorem taxOwed_nonneg_witness:
  "bracketTax (totalIncome (calculateTax (Some [(''wages'', Some 10000)]) 1))
      \<le> dependentDeduction (calculateTax (Some [(''wages'', Some 10000)]) 1)
    \<and> taxOwed (calculateTax (Some [(''wages'', Some 10000)]) 1) = 0"
proof -
  have d: "bracketTax (totalIncome (calculateTax (Some [(''wages'', Some 10000)]) 1))
      \<le> dependentDeduction (calculateTax (Some [(''wages'', Some 10000)]) 1)"
    by (simp add: calculateTax_def Let_def sumIncome_def or_zero_def bracketTax_def)
  with taxOwed_nonneg [of "Some [(''wages'', Some 10000)]" 1] show ?thesis
    by blast
qed

text \<open>
  Claim C6.  When every category of the income object is zero or absent, and also when
  the user has no income object, the total income is 0 and the handler returns tax owed
  0 and effective rate 0 for every number of dependents: the rate comes from the branch
  for a total that is not positive, so no division by the zero total takes place and the
  rate is the finite number 0.
\<close>

theorem zero_income_no_tax:
  assumes "case userIncome of None \<Rightarrow> True
           | Some income \<Rightarrow> \<forall>(k, v) \<in> set income. v = None \<or> v = Some 0"
  shows "totalIncome (calculateTax userIncome count) = 0
    \<and> taxOwed (calculateTax userIncome count) = 0
    \<and> effectiveRate (calculateTax userIncome count) = Some 0"
proof -
  have "sumIncome (case userIncome of None \<Rightarrow> [] | Some i \<Rightarrow> i) = 0"
  proof (cases userIncome)
    case None
    then show ?thesis by (simp add: sumIncome_def)
  next
    case (Some income)
    with assms show ?thesis by (simp add: sumIncome_all_absent)
  qed
  then show ?thesis
    by (simp add: calculateTax_def Let_def bracketTax_def Math_round_zero)
qed

theorem zero_income_no_tax_witness:
  "(\<forall>(k, v) \<in> set [(''wages'', Some 0), (''interest'', None)]. v = None \<or> v = Some (0::rat)) = True
    \<and> taxOwed (calculateTax (Some [(''wages'', Some 0), (''interest'', None)]) 3) = 0
    \<and> effectiveRate (calculateTax (Some [(''wages'', Some 0), (''interest'', None)]) 3) = Some 0"
  using zero_income_no_tax [of "Some [(''wages'', Some 0), (''interest'', None)]" 3]
  by simp

text \<open>
  The cascade does not decrease below the bound 89450 of the third bracket, nor above
  it: each piece rises with the income, and the pieces meet at 10275 and at 41775.
\<close>

lemma bracketTax_mono_upto_89450:
  assumes "t1 \<le> t2" and "t2 \<le> 89450"
  shows "bracketTax t1 \<le> bracketTax t2"
  using assms by (auto simp: bracketTax_def diff_divide_distrib)

lemma bracketTax_mono_above_89450:
  assumes "t1 \<le> t2" and "89450 < t1"
  shows "bracketTax t1 \<le> bracketTax t2"
  using assms by (auto simp: bracketTax_def diff_divide_distrib)

text \<open>
  Claim C8 asks the bracket tax to be monotone in the total income.  The base amounts
  1027.50 and 4807.50 of the second and third bracket are the tax at their lower bounds
  10275 and 41775, but the base amount 15213.50 of the last bracket is not the tax
  15296.00 that the third bracket reaches at its upper bound 89450: one unit of income
  more lowers the tax from 15296.00 to 15213.74.
\<close>

theorem bracketTax_drops_at_89450:
  "bracketTax 10275 = 1027.50 \<and> bracketTax 41775 = 4807.50
    \<and> bracketTax 89450 = 15296 \<and> bracketTax 89451 = 15213.74
    \<and> bracketTax 89451 < bracketTax 89450"
  by (simp add: bracketTax_def)

section \<open>Properties of the student loan interest\<close>

lemma js_gt_mono: "js_le x y \<Longrightarrow> js_gt x c \<Longrightarrow> js_gt y c"
  by (cases x; cases y) auto

lemma loanTier_mono:
  assumes "js_le x y"
  shows "amountOf (if js_gt x 30000 then ''2500.00''
                   else if js_gt x 20000 then ''1500.00''
                   else if js_gt x 10000 then ''800.00'' else ''0.00'')
       \<le> amountOf (if js_gt y 30000 then ''2500.00''
                   else if js_gt y 20000 then ''1500.00''
                   else if js_gt y 10000 then ''800.00'' else ''0.00'')"
  using js_gt_mono [OF assms, of 30000] js_gt_mono [OF assms, of 20000]
    js_gt_mono [OF assms, of 10000]
  by (auto simp: amountOf_def)

text \<open>
  Claim C10.  For every input object \<open>calculateStudentLoanInterest\<close> returns one of four
  strings: \<open>2500.00\<close> when the parsed wages exceed 30000, \<open>1500.00\<close> when they exceed
  20000, \<open>800.00\<close> when they exceed 10000 and \<open>0.00\<close> otherwise.  It returns \<open>0.00\<close> when
  the wages do not parse as a number, and when \<open>box1_wages\<close> is absent (the string \<open>0\<close>
  is parsed in its place, and \<open>parseFloat\<close> of it is the number 0).  The result is
  monotone in the parsed wages.
\<close>

theorem calculateStudentLoanInterest_tiers:
  "calculateStudentLoanInterest pf w \<in> {''2500.00'', ''1500.00'', ''800.00'', ''0.00''}
   \<and> (js_gt (parsedWages pf w) 30000 \<longrightarrow> calculateStudentLoanInterest pf w = ''2500.00'')
   \<and> (\<not> js_gt (parsedWages pf w) 30000 \<and> js_gt (parsedWages pf w) 20000
        \<longrightarrow> calculateStudentLoanInterest pf w = ''1500.00'')
   \<and> (\<not> js_gt (parsedWages pf w) 20000 \<and> js_gt (parsedWages pf w) 10000
        \<longrightarrow> calculateStudentLoanInterest pf w = ''800.00'')
   \<and> (\<not> js_gt (parsedWages pf w) 10000 \<longrightarrow> calculateStudentLoanInterest pf w = ''0.00'')
   \<and> (parsedWages pf w = NaN \<longrightarrow> calculateStudentLoanInterest pf w = ''0.00'')
   \<and> (map_of w ''box1_wages'' = None \<and> pf (String ''0'') = Finite 0
        \<longrightarrow> calculateStudentLoanInterest pf w = ''0.00'')
   \<and> (js_le (parsedWages pf w) (parsedWages pf w')
        \<longrightarrow> amountOf (calculateStudentLoanInterest pf w)
            \<le> amountOf (calculateStudentLoanInterest pf w'))"
proof -
  have range: "calculateStudentLoanInterest pf w \<in> {''2500.00'', ''1500.00'', ''800.00'', ''0.00''}"
    by (simp add: calculateStudentLoanInterest_def Let_def)
  have tiers: "(js_gt (parsedWages pf w) 30000 \<longrightarrow> calculateStudentLoanInterest pf w = ''2500.00'')
   \<and> (\<not> js_gt (parsedWages pf w) 30000 \<and> js_gt (parsedWages pf w) 20000
        \<longrightarrow> calculateStudentLoanInterest pf w = ''1500.00'')
   \<and> (\<not> js_gt (parsedWages pf w) 20000 \<and> js_gt (parsedWages pf w) 10000
        \<longrightarrow> calculateStudentLoanInterest pf w = ''800.00'')
   \<and> (\<not> js_gt (parsedWages pf w) 10000 \<longrightarrow> calculateStudentLoanInterest pf w = ''0.00'')"
    using js_gt_mono [of "Finite 30000" "parsedWages pf w"]
    by (cases "parsedWages pf w") (auto simp: calculateStudentLoanInterest_def Let_def)
  have nan: "parsedWages pf w = NaN \<longrightarrow> calculateStudentLoanInterest pf w = ''0.00''"
    by (simp add: calculateStudentLoanInterest_def Let_def)
  have absent: "map_of w ''box1_wages'' = None \<and> pf (String ''0'') = Finite 0
        \<longrightarrow> calculateStudentLoanInterest pf w = ''0.00''"
    by (simp add: calculateStudentLoanInterest_def Let_def parsedWages_def property_def js_or_def)
  have mono: "js_le (parsedWages pf w) (parsedWages pf w')
        \<longrightarrow> amountOf (calculateStudentLoanInterest pf w)
            \<le> amountOf (calculateStudentLoanInterest pf w')"
    unfolding calculateStudentLoanInterest_def Let_def using loanTier_mono by blast
  from range tiers nan absent mono show ?thesis by blast
qed

lemma parsedWages_samples: "parsedWages parseFloatSample w2High = Finite 45000"
  "parsedWages parseFloatSample w2Mid = Finite 25000"
  "parsedWages parseFloatSample w2Bad = NaN"
  "parsedWages parseFloatSample [] = Finite 0"
  by (simp_all add: parsedWages_def parseFloatSample_def property_def js_or_def w2High_def w2Mid_def w2Bad_def)

theorem calculateStudentLoanInterest_tiers_witness:
  "js_gt (parsedWages parseFloatSample w2High) 30000
   \<and> calculateStudentLoanInterest parseFloatSample w2High = ''2500.00''
   \<and> \<not> js_gt (parsedWages parseFloatSample w2Mid) 30000
   \<and> js_gt (parsedWages parseFloatSample w2Mid) 20000
   \<and> calculateStudentLoanInterest parseFloatSample w2Mid = ''1500.00''
   \<and> map_of ([] :: object) ''box1_wages'' = None \<and> parseFloatSample (String ''0'') = Finite 0
   \<and> calculateStudentLoanInterest parseFloatSample [] = ''0.00''
   \<and> parsedWages parseFloatSample w2Bad = NaN
   \<and> calculateStudentLoanInterest parseFloatSample w2Bad = ''0.00''
   \<and> js_le (parsedWages parseFloatSample w2Mid) (parsedWages parseFloatSample w2High)
   \<and> amountOf (calculateStudentLoanInterest parseFloatSample w2Mid)
        \<le> amountOf (calculateStudentLoanInterest parseFloatSample w2High)"
proof -
  have z: "parseFloatSample (String ''0'') = Finite 0"
    by (simp add: parseFloatSample_def)
  show ?thesis
    using calculateStudentLoanInterest_tiers [of parseFloatSample w2High w2High]
      calculateStudentLoanInterest_tiers [of parseFloatSample w2Mid w2High]
      calculateStudentLoanInterest_tiers [of parseFloatSample "[]" w2High]
      calculateStudentLoanInterest_tiers [of parseFloatSample w2Bad w2High]
    by (simp add: parsedWages_samples z amountOf_def)
qed

section \<open>Properties of the field extractor\<close>

lemma extractField_firstCapture:
  "extractField text patterns = map_option trim (firstCapture text patterns)"
  by (induction patterns) (auto split: option.splits)

lemma extractMoneyField_firstCapture:
  "extractMoneyField text patterns =
     map_option (\<lambda>g. filter (\<lambda>c. c \<noteq> CHR '','') g @ (if CHR ''.'' \<in> set g then [] else ''.00''))
       (firstCapture text patterns)"
  by (induction patterns) (auto simp: Let_def split: option.splits)

lemma firstCapture_Some:
  "firstCapture text patterns = Some g \<Longrightarrow>
     g \<noteq> [] \<and> (\<exists>p \<in> set patterns. \<exists>m. p text = Some m \<and> group1 m = Some g)"
  by (induction patterns) (auto split: option.splits if_splits)

lemma firstCapture_no_match:
  "\<forall>p \<in> set patterns. p text = None \<Longrightarrow> firstCapture text patterns = None"
  by (induction patterns) auto

lemma dropWhile_until_point:
  "CHR ''.'' \<notin> set a \<Longrightarrow>
     dropWhile (\<lambda>c. c \<noteq> CHR ''.'') (a @ b) = dropWhile (\<lambda>c. c \<noteq> CHR ''.'') b"
  by (induction a) auto

lemma twoDecimals_appended:
  assumes "CHR ''.'' \<notin> set a"
  shows "twoDecimals (a @ ''.00'')"
proof -
  from assms have "count_list a CHR ''.'' = 0"
    by (simp add: count_list_0_iff)
  moreover from assms have "dropWhile (\<lambda>c. c \<noteq> CHR ''.'') (a @ ''.00'') = ''.00''"
    by (simp add: dropWhile_until_point)
  ultimately show ?thesis
    by (simp add: twoDecimals_def is_digit_def)
qed

text \<open>
  Claim C2, as amended.  Whenever \<open>extractMoneyField\<close> returns a string, the string is
  the captured text with every thousands separator removed, followed by \<open>.00\<close> when the
  captured text has no decimal point and by nothing when it has one.  In the first case
  the result has exactly one decimal point with exactly two digits after it; in the
  second the digits after the point are those of the captured text, however many.
\<close>

theorem extractMoneyField_format:
  assumes "extractMoneyField text patterns = Some r"
  shows "\<exists>g. firstCapture text patterns = Some g \<and> g \<noteq> []
           \<and> CHR '','' \<notin> set r
           \<and> r = filter (\<lambda>c. c \<noteq> CHR '','') g @ (if CHR ''.'' \<in> set g then [] else ''.00'')
           \<and> (CHR ''.'' \<notin> set g \<longrightarrow> twoDecimals r)"
proof -
  from assms obtain g where g: "firstCapture text patterns = Some g"
    and r: "r = filter (\<lambda>c. c \<noteq> CHR '','') g @ (if CHR ''.'' \<in> set g then [] else ''.00'')"
    by (auto simp: extractMoneyField_firstCapture)
  from g have "g \<noteq> []"
    by (simp add: firstCapture_Some)
  moreover from r have "CHR '','' \<notin> set r"
    by auto
  moreover have "twoDecimals r" if "CHR ''.'' \<notin> set g"
  proof -
    from that have "CHR ''.'' \<notin> set (filter (\<lambda>c. c \<noteq> CHR '','') g)"
      by simp
    then have "twoDecimals (filter (\<lambda>c. c \<noteq> CHR '','') g @ ''.00'')"
      by (rule twoDecimals_appended)
    with r that show ?thesis by simp
  qed
  ultimately show ?thesis
    using g r by blast
qed

theorem extractMoneyField_format_witness:
  "extractMoneyField textWholeAmount box1Patterns = Some ''52345.00''
   \<and> firstCapture textWholeAmount box1Patterns = Some ''52,345''
   \<and> twoDecimals ''52345.00''"
proof -
  have e: "extractMoneyField textWholeAmount box1Patterns = Some ''52345.00''"
    by code_simp
  have c: "firstCapture textWholeAmount box1Patterns = Some ''52,345''"
    by code_simp
  from extractMoneyField_format [OF e] c have "twoDecimals ''52345.00''"
    by simp
  with e c show ?thesis by simp
qed

text \<open>
  The claim as stated asks for two digits after the decimal point of every result whose
  capture had a thousands separator.  The third pattern of box 1 captures \<open>1,234.5\<close> from
  the text \<open>Wages: 1,234.5\<close>, and the result \<open>1234.5\<close> has one digit after the point.
\<close>

theorem extractMoneyField_one_decimal:
  "firstCapture textOneDecimal box1Patterns = Some ''1,234.5''
   \<and> CHR '','' \<in> set ''1,234.5''
   \<and> extractMoneyField textOneDecimal box1Patterns = Some ''1234.5''
   \<and> \<not> twoDecimals ''1234.5''"
  by code_simp

text \<open>
  Claim C3.  A rule that matches the text with a capture group that is unmatched, or
  empty after trimming the surrounding white space, is to be passed over, so that the
  next rule is tried, and \<open>extractField\<close> is to return a value only from a rule whose
  capture is non-empty after trimming.  The code tests the capture before it trims it.
  In the text \<open>textSplitName\<close> the first rule for the employee name captures a single
  space, which is not the empty string: \<open>extractField\<close> returns its trimmed value, the
  empty string, the second rule, which finds \<open>John Smith\<close>, is never tried, and the
  route stores \<open>Not found\<close> for the name.
\<close>

theorem extractField_blank_capture:
  "hd employeeNamePatterns textSplitName = Some [Some ''Employee's name: \<newline>'', Some '' '']
   \<and> trim '' '' = []
   \<and> extractField textSplitName employeeNamePatterns = Some []
   \<and> extractField textSplitName (tl employeeNamePatterns) = Some ''John Smith''
   \<and> orElse (extractField textSplitName employeeNamePatterns) ''Not found'' = Some ''Not found''"
  by code_simp

text \<open>
  Claim C7.  When no rule of the pattern list matches the text, \<open>extractField\<close> returns
  \<open>null\<close>; it has no other outcome than \<open>null\<close> or a string, for every text and every
  pattern list.
\<close>

theorem extractField_no_match:
  assumes "\<forall>p \<in> set patterns. p text = None"
  shows "extractField text patterns = None"
  using assms by (simp add: extractField_firstCapture firstCapture_no_match)

theorem extractField_no_match_witness:
  "map (\<lambda>p. p textNoLabels) employeeNamePatterns = [None, None, None]
   \<and> extractField textNoLabels employeeNamePatterns = None"
proof -
  have m: "map (\<lambda>p. p textNoLabels) employeeNamePatterns = [None, None, None]"
    by code_simp
  then have "\<forall>p \<in> set employeeNamePatterns. p textNoLabels = None"
    by (simp add: employeeNamePatterns_def)
  from extractField_no_match [OF this] m show ?thesis
    by simp
qed

section \<open>Properties of the extract-w2 route\<close>

lemma orElse_not_None: "orElse v d \<noteq> None"
  by (simp add: orElse_def split: option.splits)

lemma orElse_sentinel: "v = None \<or> v = Some d \<Longrightarrow> orElse v d = Some d"
  by (auto simp: orElse_def)

text \<open>
  Claim C9.  In the record that the route answers with, every field is a string, none
  is \<open>null\<close>.  A name that is not found is stored as \<open>Not found\<close> and a money box that is
  not found as \<open>0.00\<close>, the same string that the box holds when the amount \<open>0.00\<close> is
  extracted from the document: the record does not tell the two apart.
\<close>

theorem extractW2_fields:
  assumes "extractW2 found fileExists pdfText now saved = Status200 d"
  shows "employeeName d \<noteq> None \<and> employerName d \<noteq> None
    \<and> box1_wages d \<noteq> None \<and> box2_federalTax d \<noteq> None
    \<and> box3_socialSecurityWages d \<noteq> None \<and> box4_socialSecurityTax d \<noteq> None
    \<and> box5_medicareWages d \<noteq> None \<and> box6_medicareTax d \<noteq> None
    \<and> extractionDate d \<noteq> None \<and> fileName d \<noteq> None
    \<and> (\<exists>text. pdfText = Some text
       \<and> (extractField text employeeNamePatterns = None \<longrightarrow> employeeName d = Some ''Not found'')
       \<and> (extractField text employerNamePatterns = None \<longrightarrow> employerName d = Some ''Not found'')
       \<and> (extractMoneyField text box1Patterns = None \<or> extractMoneyField text box1Patterns = Some ''0.00''
            \<longrightarrow> box1_wages d = Some ''0.00'')
       \<and> (extractMoneyField text box2Patterns = None \<or> extractMoneyField text box2Patterns = Some ''0.00''
            \<longrightarrow> box2_federalTax d = Some ''0.00'')
       \<and> (extractMoneyField text box3Patterns = None \<or> extractMoneyField text box3Patterns = Some ''0.00''
            \<longrightarrow> box3_socialSecurityWages d = Some ''0.00'')
       \<and> (extractMoneyField text box4Patterns = None \<or> extractMoneyField text box4Patterns = Some ''0.00''
            \<longrightarrow> box4_socialSecurityTax d = Some ''0.00'')
       \<and> (extractMoneyField text box5Patterns = None \<or> extractMoneyField text box5Patterns = Some ''0.00''
            \<longrightarrow> box5_medicareWages d = Some ''0.00'')
       \<and> (extractMoneyField text box6Patterns = None \<or> extractMoneyField text box6Patterns = Some ''0.00''
            \<longrightarrow> box6_medicareTax d = Some ''0.00''))"
proof -
  from assms obtain u content where u: "found = Some u" "w2FileName u \<noteq> None"
    and t: "pdfText = Some content"
    and d: "d = \<lparr> employeeName = orElse (extractField content employeeNamePatterns) ''Not found'',
               employerName = orElse (extractField content employerNamePatterns) ''Not found'',
               box1_wages = orElse (extractMoneyField content box1Patterns) ''0.00'',
               box2_federalTax = orElse (extractMoneyField content box2Patterns) ''0.00'',
               box3_socialSecurityWages = orElse (extractMoneyField content box3Patterns) ''0.00'',
               box4_socialSecurityTax = orElse (extractMoneyField content box4Patterns) ''0.00'',
               box5_medicareWages = orElse (extractMoneyField content box5Patterns) ''0.00'',
               box6_medicareTax = orElse (extractMoneyField content box6Patterns) ''0.00'',
               extractionDate = Some now,
               fileName = w2FileName u \<rparr>"
    unfolding extractW2_def Let_def
    by (auto split: option.splits if_splits)
  have fields: "employeeName d \<noteq> None \<and> employerName d \<noteq> None
    \<and> box1_wages d \<noteq> None \<and> box2_federalTax d \<noteq> None
    \<and> box3_socialSecurityWages d \<noteq> None \<and> box4_socialSecurityTax d \<noteq> None
    \<and> box5_medicareWages d \<noteq> None \<and> box6_medicareTax d \<noteq> None
    \<and> extractionDate d \<noteq> None \<and> fileName d \<noteq> None"
    using u by (simp add: d orElse_not_None)
  have names: "(extractField content employeeNamePatterns = None \<longrightarrow> employeeName d = Some ''Not found'')
       \<and> (extractField content employerNamePatterns = None \<longrightarrow> employerName d = Some ''Not found'')"
    by (simp add: d orElse_sentinel)
  have boxes: "(extractMoneyField content box1Patterns = None \<or> extractMoneyField content box1Patterns = Some ''0.00''
            \<longrightarrow> box1_wages d = Some ''0.00'')
       \<and> (extractMoneyField content box2Patterns = None \<or> extractMoneyField content box2Patterns = Some ''0.00''
            \<longrightarrow> box2_federalTax d = Some ''0.00'')
       \<and> (extractMoneyField content box3Patterns = None \<or> extractMoneyField content box3Patterns = Some ''0.00''
            \<longrightarrow> box3_socialSecurityWages d = Some ''0.00'')
       \<and> (extractMoneyField content box4Patterns = None \<or> extractMoneyField content box4Patterns = Some ''0.00''
            \<longrightarrow> box4_socialSecurityTax d = Some ''0.00'')
       \<and> (extractMoneyField content box5Patterns = None \<or> extractMoneyField content box5Patterns = Some ''0.00''
            \<longrightarrow> box5_medicareWages d = Some ''0.00'')
       \<and> (extractMoneyField content box6Patterns = None \<or> extractMoneyField content box6Patterns = Some ''0.00''
            \<longrightarrow> box6_medicareTax d = Some ''0.00'')"
    by (simp add: d orElse_sentinel)
  from fields names boxes t show ?thesis
    by simp
qed

theorem extractW2_fields_witness:
  "extractW2 (Some uploader) True (Some textNoLabels) timeStamp True = Status200 notFoundData
   \<and> extractMoneyField textNoLabels box1Patterns = None
   \<and> extractW2 (Some uploader) True (Some textZeroWages) timeStamp True = Status200 notFoundData
   \<and> extractMoneyField textZeroWages box1Patterns = Some ''0.00''
   \<and> box1_wages notFoundData = Some ''0.00''
   \<and> employeeName notFoundData = Some ''Not found''
   \<and> fileName notFoundData \<noteq> None"
proof -
  have a: "extractW2 (Some uploader) True (Some textNoLabels) timeStamp True = Status200 notFoundData"
    by code_simp
  have b: "extractW2 (Some uploader) True (Some textZeroWages) timeStamp True = Status200 notFoundData"
    by code_simp
  have c: "extractMoneyField textNoLabels box1Patterns = None"
    "extractField textNoLabels employeeNamePatterns = None"
    "extractMoneyField textZeroWages box1Patterns = Some ''0.00''"
    by code_simp+
  from extractW2_fields [OF a] c
  have "box1_wages notFoundData = Some ''0.00'' \<and> employeeName notFoundData = Some ''Not found''
          \<and> fileName notFoundData \<noteq> None"
    by simp
  with a b c show ?thesis
    by simp
qed


end
